theory Spec2Isabelle
  imports Complex_Main "HOL-Library.Char_ord" "HOL-Library.List_Lexorder" "HOL-Library.Sublist"
    "HOL-Library.Log_Nat"
begin

section \<open>Numbers and their comparison\<close>

text \<open>
  A payload and a bound of the slider are numbers of two kinds: an integer (an
  \<^verbatim>\<open>int64\<close> entry of the payload column, a Python \<^verbatim>\<open>int\<close> bound) or a float (a
  \<^verbatim>\<open>float64\<close> entry, a Python \<^verbatim>\<open>float\<close> bound). A float is given by the real number
  it holds; it is finite and it is not a missing value. \<open>value_of\<close> is the number a
  value stands for, whatever its kind.
\<close>

datatype number = PyInt int | PyFloat real

fun value_of :: "number \<Rightarrow> real" where
  "value_of (PyInt n) = of_int n"
| "value_of (PyFloat x) = x"

datatype py_error = ValueError | OverflowError

text \<open>
  The conversion of a non-negative integer to the nearest float64, as an integer:
  the 53 leading bits are kept, the rest is rounded, a tie going to the even
  neighbour.
\<close>

definition round_to_53_bits :: "int \<Rightarrow> int" where
  "round_to_53_bits a =
     (let e = nat (bitlen a - 53);
          q = a div 2 ^ e;
          r = a mod 2 ^ e;
          m = (if 2 ^ e < 2 * r \<or> (2 * r = 2 ^ e \<and> odd q) then q + 1 else q)
      in m * 2 ^ e)"

text \<open>
  An integer up to \<open>2 ^ 53\<close> in magnitude is a float64 as it is. A larger one is
  rounded. One that rounds to \<open>2 ^ 1024\<close> or beyond, that is one of magnitude
  \<open>float64_limit\<close> or more, is no float64: its conversion raises \<^verbatim>\<open>OverflowError\<close>
  (no \<^verbatim>\<open>int64\<close> entry is that large, a Python \<^verbatim>\<open>int\<close> can be).
\<close>

definition float64_limit :: int where
  "float64_limit = 2 ^ 1024 - 2 ^ 970"

definition float64_of_int :: "int \<Rightarrow> py_error + real" where
  "float64_of_int n =
     (if \<bar>n\<bar> \<le> 2 ^ 53 then Inr (of_int n)
      else if float64_limit \<le> \<bar>n\<bar> then Inl OverflowError
      else Inr (of_int (sgn n * round_to_53_bits \<bar>n\<bar>)))"

fun as_float64 :: "number \<Rightarrow> py_error + real" where
  "as_float64 (PyInt n) = float64_of_int n"
| "as_float64 (PyFloat x) = Inr x"

text \<open>
  \<open>num_le a b\<close> is the comparison \<^verbatim>\<open>a <= b\<close> between an entry of the column and a
  bound, as the array library makes it: two integers are compared as integers; when
  one side is a float, the other side is converted to float64 and two floats are
  compared.
\<close>

fun num_le :: "number \<Rightarrow> number \<Rightarrow> py_error + bool" where
  "num_le (PyInt a) (PyInt b) = Inr (a \<le> b)"
| "num_le a b =
     (case as_float64 a of
        Inl e \<Rightarrow> Inl e
      | Inr x \<Rightarrow> (case as_float64 b of Inl e \<Rightarrow> Inl e | Inr y \<Rightarrow> Inr (x \<le> y)))"

text \<open>A comparison of a whole column with a bound: the mask, or the first error.\<close>

fun compare_column :: "(number \<Rightarrow> py_error + bool) \<Rightarrow> number list \<Rightarrow> py_error + bool list" where
  "compare_column cmp [] = Inr []"
| "compare_column cmp (x # xs) =
     (case cmp x of
        Inl e \<Rightarrow> Inl e
      | Inr b \<Rightarrow> (case compare_column cmp xs of Inl e \<Rightarrow> Inl e | Inr bs \<Rightarrow> Inr (b # bs)))"

text \<open>
  The values among which every comparison is exact: 64-bit integers only, or floats
  and integers that are floats as they are.
\<close>

fun is_int64 :: "number \<Rightarrow> bool" where
  "is_int64 (PyInt n) = (- (2 ^ 63) \<le> n \<and> n < 2 ^ 63)"
| "is_int64 (PyFloat x) = False"

fun float64_exact :: "number \<Rightarrow> bool" where
  "float64_exact (PyInt n) = (\<bar>n\<bar> \<le> 2 ^ 53)"
| "float64_exact (PyFloat x) = True"

definition compared_exactly :: "number list \<Rightarrow> bool" where
  "compared_exactly xs = (list_all is_int64 xs \<or> list_all float64_exact xs)"

text \<open>The values whose conversion to float64 does not overflow.\<close>

fun converts_to_float64 :: "number \<Rightarrow> bool" where
  "converts_to_float64 (PyInt n) = (\<bar>n\<bar> < float64_limit)"
| "converts_to_float64 (PyFloat x) = True"

section \<open>The launch-record table\<close>

text \<open>
  One row of \<^verbatim>\<open>spacex_df\<close>, with the four columns the program reads:
  \<^verbatim>\<open>'Launch Site'\<close>, \<^verbatim>\<open>'Payload Mass (kg)'\<close>, \<^verbatim>\<open>'class'\<close> (an integer column,
  1 for a success and 0 for a failure) and \<^verbatim>\<open>'Booster Version Category'\<close>.
  The payload is a number that is present (no missing value). The data frame is
  the list of its rows, in order; its payload column has one type, so the payloads
  of a frame are all integers or all floats.
\<close>

record launch_record =
  launch_site :: string
  payload_mass :: number
  launch_class :: int
  booster_version_category :: string

type_synonym dataframe = "launch_record list"

definition mk_record :: "string \<Rightarrow> number \<Rightarrow> int \<Rightarrow> string \<Rightarrow> launch_record" where
  "mk_record s p c b =
     \<lparr>launch_site = s, payload_mass = p, launch_class = c, booster_version_category = b\<rparr>"

text \<open>The invariant of the data model: every outcome is 0 or 1, no payload is negative.\<close>

definition valid_dataset :: "dataframe \<Rightarrow> bool" where
  "valid_dataset df =
     list_all (\<lambda>r. (launch_class r = 0 \<or> launch_class r = 1) \<and> 0 \<le> value_of (payload_mass r)) df"

section \<open>Loading\<close>

text \<open>
  \<^verbatim>\<open>pd.read_csv\<close> is library code: its outcome is the input of the model, either the
  parsed table or the exception it raised. The \<^verbatim>\<open>try\<close> has one handler, for
  \<^verbatim>\<open>FileNotFoundError\<close>; it prints a line and builds the four-row table. Any other
  exception leaves the \<^verbatim>\<open>try\<close> statement as it came. The result is the printed lines
  and either the exception that escapes or the value bound to \<^verbatim>\<open>spacex_df\<close>.
\<close>

datatype read_error = FileNotFoundError | EmptyDataError | ParserError

definition fallback_df :: dataframe where
  "fallback_df =
     [mk_record ''CCAFS LC-40'' (PyInt 500) 0 ''v1.0'',
      mk_record ''VAFB SLC-4E'' (PyInt 600) 1 ''v1.1'',
      mk_record ''KSC LC-39A'' (PyInt 700) 1 ''FT'',
      mk_record ''CCAFS SLC-40'' (PyInt 800) 0 ''v1.0'']"

definition not_found_message :: string where
  "not_found_message =
     ''Error: spacex_launch_dash.csv not found. Please ensure the file is in the correct directory.''"

fun load_spacex_df :: "read_error + dataframe \<Rightarrow> string list \<times> (read_error + dataframe)" where
  "load_spacex_df (Inr df) = ([], Inr df)"
| "load_spacex_df (Inl FileNotFoundError) = ([not_found_message], Inr fallback_df)"
| "load_spacex_df (Inl e) = ([], Inl e)"

section \<open>The data-frame operations the callbacks use\<close>

text \<open>\<^verbatim>\<open>Series.unique()\<close>: the distinct values in order of first appearance.\<close>

definition unique :: "'a list \<Rightarrow> 'a list" where
  "unique xs = rev (remdups (rev xs))"

definition launch_sites :: "dataframe \<Rightarrow> string list" where
  "launch_sites spacex_df = unique (map launch_site spacex_df)"

text \<open>\<^verbatim>\<open>df[mask]\<close>: the rows whose entry in the boolean mask is true, in the order of the frame.\<close>

definition boolean_index :: "'a list \<Rightarrow> bool list \<Rightarrow> 'a list" where
  "boolean_index df flags = map fst (filter snd (zip df flags))"

text \<open>
  \<^verbatim>\<open>df.groupby(key).size().reset_index(...)\<close>: one row per key that occurs, with the
  number of rows of its group; the keys come sorted, as \<^verbatim>\<open>groupby\<close> sorts them by default.
\<close>

definition groupby_size :: "('a \<Rightarrow> 'k::linorder) \<Rightarrow> 'a list \<Rightarrow> ('k \<times> nat) list" where
  "groupby_size key df =
     map (\<lambda>k. (k, count_list (map key df) k)) (sort (remdups (map key df)))"

text \<open>
  \<^verbatim>\<open>Series.value_counts().reset_index()\<close>: one row per value that occurs, with the
  number of its occurrences, the larger counts first (equal counts stay in order of
  first appearance).
\<close>

definition value_counts :: "'v list \<Rightarrow> ('v \<times> nat) list" where
  "value_counts col =
     sort_key (\<lambda>(v, n). - int n) (map (\<lambda>v. (v, count_list col v)) (unique col))"

text \<open>\<^verbatim>\<open>.map({1: 'Success', 0: 'Failure'})\<close>: a value that is no key of the dict has no label.\<close>

definition outcome_label :: "int \<Rightarrow> string option" where
  "outcome_label c =
     (if c = 1 then Some ''Success'' else if c = 0 then Some ''Failure'' else None)"

section \<open>The two callbacks\<close>

text \<open>
  A pie figure is given by the rows handed to \<^verbatim>\<open>px.pie\<close>: the \<^verbatim>\<open>names\<close> column and
  the \<^verbatim>\<open>values\<close> column. In the branch for all sites the names are launch sites; in
  the branch for one site they are the outcome labels.
\<close>

type_synonym pie_rows = "(string option \<times> nat) list"

definition get_pie_chart :: "dataframe \<Rightarrow> string \<Rightarrow> pie_rows" where
  "get_pie_chart spacex_df entered_site =
     (if entered_site = ''ALL'' then
        let successful_df = boolean_index spacex_df (map (\<lambda>r. launch_class r = 1) spacex_df);
            site_success_counts = groupby_size launch_site successful_df
        in map (\<lambda>(site, n). (Some site, n)) site_success_counts
      else
        let filtered_df =
              boolean_index spacex_df (map (\<lambda>r. launch_site r = entered_site) spacex_df);
            site_outcome_counts = value_counts (map launch_class filtered_df)
        in map (\<lambda>(c, n). (outcome_label c, n)) site_outcome_counts)"

text \<open>
  \<^verbatim>\<open>low, high = payload_range\<close> unpacks a sequence of exactly two elements and raises
  \<^verbatim>\<open>ValueError\<close> on any other length.
\<close>

fun unpack_pair :: "'a list \<Rightarrow> py_error + ('a \<times> 'a)" where
  "unpack_pair [a, b] = Inr (a, b)"
| "unpack_pair _ = Inl ValueError"

text \<open>
  A scatter figure is given by the frame handed to \<^verbatim>\<open>px.scatter\<close>. The two
  comparisons of the payload column with the bounds come first; either can raise.
\<close>

definition get_scatter_chart :: "dataframe \<Rightarrow> string \<Rightarrow> number list \<Rightarrow> py_error + dataframe" where
  "get_scatter_chart spacex_df entered_site payload_range =
     (case unpack_pair payload_range of
        Inl e \<Rightarrow> Inl e
      | Inr (low, high) \<Rightarrow>
          (case compare_column (\<lambda>p. num_le low p) (map payload_mass spacex_df) of
             Inl e \<Rightarrow> Inl e
           | Inr ge_low \<Rightarrow>
               (case compare_column (\<lambda>p. num_le p high) (map payload_mass spacex_df) of
                  Inl e \<Rightarrow> Inl e
                | Inr le_high \<Rightarrow>
                    let mask = map2 (\<and>) ge_low le_high;
                        filtered_df = boolean_index spacex_df mask
                    in if entered_site = ''ALL'' then Inr filtered_df
                       else Inr (boolean_index filtered_df
                                   (map (\<lambda>r. launch_site r = entered_site) filtered_df)))))"

text \<open>The count a pie figure shows under a name; a name without a row counts as zero.\<close>

definition count_of :: "pie_rows \<Rightarrow> string \<Rightarrow> nat" where
  "count_of rows name = (case map_of rows (Some name) of None \<Rightarrow> 0 | Some n \<Rightarrow> n)"

text \<open>The four-record table of the scenario.\<close>

definition scenario_df :: dataframe where
  "scenario_df =
     [mk_record ''CCAFS'' (PyInt 500) 1 ''v1.0'',
      mk_record ''VAFB'' (PyInt 600) 0 ''v1.1'',
      mk_record ''KSC'' (PyInt 700) 1 ''FT'',
      mk_record ''CCAFS'' (PyInt 800) 0 ''v1.0'']"

text \<open>
  A table of two launches whose integer payloads are \<open>2 ^ 53\<close> and \<open>2 ^ 53 + 1\<close>,
  and the table of the second launch alone.
\<close>

definition heavy_df :: dataframe where
  "heavy_df =
     [mk_record ''KSC'' (PyInt 9007199254740992) 1 ''FT'',
      mk_record ''KSC'' (PyInt 9007199254740993) 1 ''FT'']"

definition heavier_df :: dataframe where
  "heavier_df = [mk_record ''KSC'' (PyInt 9007199254740993) 1 ''FT'']"

section \<open>Facts about the data-frame operations\<close>

lemma boolean_index_map: "boolean_index df (map P df) = filter P df"
  unfolding boolean_index_def by (induction df) auto

lemma map2_conj: "map2 (\<and>) (map P df) (map Q df) = map (\<lambda>r. P r \<and> Q r) df"
  by (induction df) auto

lemma subseq_boolean_index: "subseq (boolean_index df flags) df"
proof -
  have "subseq (map fst (filter snd (zip df flags))) (map fst (zip df flags))"
    by (rule subseq_map) simp
  also have "map fst (zip df flags) = take (min (length df) (length flags)) df"
    by (rule map_fst_zip_take)
  also have "subseq (take (min (length df) (length flags)) df) df"
    by (rule prefix_imp_subseq) (rule take_is_prefix)
  finally show ?thesis
    by (simp only: boolean_index_def)
qed

lemma set_unique: "set (unique xs) = set xs"
  by (simp add: unique_def)

lemma distinct_unique: "distinct (unique xs)"
  by (simp add: unique_def)

lemma count_list_pos: "x \<in> set xs \<Longrightarrow> 0 < count_list xs x"
  using count_list_0_iff [of xs x] by auto

lemma sum_list_count_distinct:
  assumes "distinct ks" "set ks = set xs"
  shows "sum_list (map (count_list xs) ks) = length xs"
proof -
  have "sum_list (map (count_list xs) ks) = sum (count_list xs) (set ks)"
    using assms(1) by (rule sum_list_distinct_conv_sum_set)
  also have "\<dots> = length xs"
    using assms(2) by (simp add: sum_count_set)
  finally show ?thesis .
qed

lemma count_list_binary:
  "list_all (\<lambda>c. c = 0 \<or> c = 1) (cs :: int list) \<Longrightarrow>
   count_list cs 1 + count_list cs 0 = length cs"
  by (induction cs) auto

subsection \<open>Comparisons\<close>

lemma compare_column_map:
  "(\<And>x. x \<in> set xs \<Longrightarrow> cmp x = Inr (f x)) \<Longrightarrow> compare_column cmp xs = Inr (map f xs)"
  by (induction xs) simp_all

lemma compare_column_returns:
  "(\<And>x. x \<in> set xs \<Longrightarrow> \<exists>t. cmp x = Inr t) \<Longrightarrow> \<exists>ts. compare_column cmp xs = Inr ts"
proof (induction xs)
  case Nil
  show ?case by simp
next
  case (Cons x xs)
  obtain t where "cmp x = Inr t"
    using Cons.prems [of x] by auto
  moreover obtain ts where "compare_column cmp xs = Inr ts"
    using Cons.IH Cons.prems by auto
  ultimately show ?case
    by simp
qed

lemma float64_of_int_exact: "\<bar>n\<bar> \<le> 2 ^ 53 \<Longrightarrow> float64_of_int n = Inr (of_int n)"
  by (simp add: float64_of_int_def)

lemma float64_of_int_returns: "\<bar>n\<bar> < float64_limit \<Longrightarrow> \<exists>x. float64_of_int n = Inr x"
  by (simp add: float64_of_int_def)

lemma as_float64_returns: "converts_to_float64 a \<Longrightarrow> \<exists>x. as_float64 a = Inr x"
  by (cases a) (simp_all add: float64_of_int_returns)

lemma num_le_exact:
  "(is_int64 a \<and> is_int64 b) \<or> (float64_exact a \<and> float64_exact b) \<Longrightarrow>
   num_le a b = Inr (value_of a \<le> value_of b)"
  by (cases a; cases b) (auto simp: float64_of_int_exact)

lemma num_le_returns:
  assumes "converts_to_float64 a" and "converts_to_float64 b"
  shows "\<exists>t. num_le a b = Inr t"
proof -
  obtain x y where "as_float64 a = Inr x" and "as_float64 b = Inr y"
    using assms as_float64_returns by blast
  then show ?thesis
    by (cases a; cases b) auto
qed

lemma compared_exactly_pair:
  assumes "compared_exactly xs" and "a \<in> set xs" and "b \<in> set xs"
  shows "num_le a b = Inr (value_of a \<le> value_of b)"
proof (rule num_le_exact)
  show "(is_int64 a \<and> is_int64 b) \<or> (float64_exact a \<and> float64_exact b)"
    using assms by (auto simp: compared_exactly_def list_all_iff)
qed

subsection \<open>Grouping and counting\<close>

lemma groupby_size_sum: "sum_list (map snd (groupby_size key df)) = length df"
proof -
  have "sum_list (map snd (groupby_size key df))
          = sum_list (map (count_list (map key df)) (sort (remdups (map key df))))"
    by (simp add: groupby_size_def comp_def)
  also have "\<dots> = length (map key df)"
    by (rule sum_list_count_distinct) simp_all
  finally show ?thesis by simp
qed

lemma set_groupby_size:
  "set (groupby_size key df) = (\<lambda>k. (k, count_list (map key df) k)) ` key ` set df"
  by (simp add: groupby_size_def)

lemma set_value_counts:
  "set (value_counts col) = (\<lambda>v. (v, count_list col v)) ` set col"
  by (simp add: value_counts_def set_unique)


lemma distinct_value_counts: "distinct (map fst (value_counts col))"
proof -
  let ?rows = "map (\<lambda>v. (v, count_list col v)) (unique col)"
  have "map fst ?rows = unique col"
    by (simp add: comp_def)
  then have "distinct (map fst ?rows)"
    by (simp add: distinct_unique)
  then have "distinct ?rows \<and> inj_on fst (set ?rows)"
    by (simp only: distinct_map)
  then have "distinct (map fst (sort_key (\<lambda>(v, n). - int n) ?rows))"
    by (simp only: distinct_map distinct_sort set_sort simp_thms)
  then show ?thesis
    by (simp only: value_counts_def)
qed

lemma map_of_value_counts:
  "map_of (value_counts col) v = (if v \<in> set col then Some (count_list col v) else None)"
proof (cases "v \<in> set col")
  case True
  then have "(v, count_list col v) \<in> set (value_counts col)"
    by (simp add: set_value_counts)
  with distinct_value_counts [of col] True show ?thesis
    by simp
next
  case False
  then have "v \<notin> fst ` set (value_counts col)"
    by (auto simp: set_value_counts)
  with False show ?thesis
    by (simp add: map_of_eq_None_iff)
qed

lemma map_of_outcome_rows_Success:
  "map_of (map (\<lambda>(c, n). (outcome_label c, n)) rows) (Some ''Success'') = map_of rows 1"
  by (induction rows) (auto simp: outcome_label_def split: if_splits)

lemma map_of_outcome_rows_Failure:
  "map_of (map (\<lambda>(c, n). (outcome_label c, n)) rows) (Some ''Failure'') = map_of rows 0"
  by (induction rows) (auto simp: outcome_label_def split: if_splits)

subsection \<open>The callbacks in terms of \<open>filter\<close>\<close>

lemma get_pie_chart_ALL:
  "get_pie_chart df ''ALL'' =
     map (\<lambda>(site, n). (Some site, n))
       (groupby_size launch_site (filter (\<lambda>r. launch_class r = 1) df))"
  by (simp add: get_pie_chart_def boolean_index_map)

lemma get_pie_chart_site:
  "entered_site \<noteq> ''ALL'' \<Longrightarrow>
   get_pie_chart df entered_site =
     map (\<lambda>(c, n). (outcome_label c, n))
       (value_counts (map launch_class (filter (\<lambda>r. launch_site r = entered_site) df)))"
  by (simp add: get_pie_chart_def boolean_index_map)

lemma get_scatter_chart_exact:
  assumes "compared_exactly (low # high # map payload_mass df)"
  shows "get_scatter_chart df s [low, high] =
     Inr (filter (\<lambda>r. s = ''ALL'' \<or> launch_site r = s)
            (filter (\<lambda>r. value_of low \<le> value_of (payload_mass r)
                          \<and> value_of (payload_mass r) \<le> value_of high) df))"
proof -
  let ?col = "map payload_mass df"
  have "compare_column (\<lambda>p. num_le low p) ?col
          = Inr (map (\<lambda>p. value_of low \<le> value_of p) ?col)"
    by (rule compare_column_map) (rule compared_exactly_pair [OF assms], simp_all)
  moreover have "compare_column (\<lambda>p. num_le p high) ?col
          = Inr (map (\<lambda>p. value_of p \<le> value_of high) ?col)"
    by (rule compare_column_map) (rule compared_exactly_pair [OF assms], simp_all)
  ultimately show ?thesis
    by (simp add: get_scatter_chart_def map2_conj boolean_index_map Let_def comp_def)
qed

lemma get_scatter_chart_subseq:
  assumes "get_scatter_chart df s payload_range = Inr fig"
  shows "subseq fig df"
proof -
  have twice: "subseq (boolean_index (boolean_index df flags) flags') df" for flags flags'
    using subseq_boolean_index [of "boolean_index df flags" flags']
      subseq_boolean_index [of df flags]
    by (rule subseq_order.trans)
  from assms show ?thesis
    by (auto simp: get_scatter_chart_def Let_def subseq_boolean_index twice
          split: sum.splits if_splits)
qed

lemma get_scatter_chart_returns:
  assumes "list_all converts_to_float64 (low # high # map payload_mass df)"
  shows "\<exists>fig. get_scatter_chart df s [low, high] = Inr fig"
proof -
  let ?col = "map payload_mass df"
  have conv: "converts_to_float64 low" "converts_to_float64 high"
    "\<And>p. p \<in> set ?col \<Longrightarrow> converts_to_float64 p"
    using assms by (auto simp: list_all_iff)
  obtain ge_low where "compare_column (\<lambda>p. num_le low p) ?col = Inr ge_low"
    using compare_column_returns [of ?col "\<lambda>p. num_le low p"] num_le_returns conv by blast
  moreover obtain le_high where "compare_column (\<lambda>p. num_le p high) ?col = Inr le_high"
    using compare_column_returns [of ?col "\<lambda>p. num_le p high"] num_le_returns conv by blast
  ultimately show ?thesis
    by (simp add: get_scatter_chart_def Let_def)
qed

lemma count_of_Success:
  "entered_site \<noteq> ''ALL'' \<Longrightarrow>
   count_of (get_pie_chart df entered_site) ''Success'' =
     count_list (map launch_class (filter (\<lambda>r. launch_site r = entered_site) df)) 1"
  by (simp add: count_of_def get_pie_chart_site map_of_outcome_rows_Success
        map_of_value_counts)

lemma count_of_Failure:
  "entered_site \<noteq> ''ALL'' \<Longrightarrow>
   count_of (get_pie_chart df entered_site) ''Failure'' =
     count_list (map launch_class (filter (\<lambda>r. launch_site r = entered_site) df)) 0"
  by (simp add: count_of_def get_pie_chart_site map_of_outcome_rows_Failure
        map_of_value_counts)

subsection \<open>The scenario table, evaluated\<close>

lemma scenario_pie_ALL:
  "get_pie_chart scenario_df ''ALL'' = [(Some ''CCAFS'', 1), (Some ''KSC'', 1)]"
  by code_simp

lemma scenario_pie_CCAFS:
  "get_pie_chart scenario_df ''CCAFS'' = [(Some ''Success'', 1), (Some ''Failure'', 1)]"
  by code_simp

lemma scenario_valid: "valid_dataset scenario_df"
  by code_simp

lemma scenario_small:
  "compared_exactly (PyInt 0 # PyInt 500 # PyInt 600 # PyInt 700 # PyInt 10000
                       # map payload_mass scenario_df)"
  by code_simp

lemma compared_exactly_subset:
  "compared_exactly ys \<Longrightarrow> set xs \<subseteq> set ys \<Longrightarrow> compared_exactly xs"
  by (auto simp: compared_exactly_def list_all_iff)

section \<open>The claims\<close>

text \<open>
  C1. On the four-record table, the pie query for all sites gives the mapping
  CCAFS to 1, KSC to 1; for the site CCAFS it gives Success to 1, Failure to 1; the
  scatter query for all sites and the range [0, 600] gives the first two records in
  their order; for the site CCAFS and the range [0, 10000] it gives the first and the
  fourth record.
\<close>

theorem scenario_queries:
  "map_of (get_pie_chart scenario_df ''ALL'') = map_of [(Some ''CCAFS'', 1), (Some ''KSC'', 1)]
   \<and> map_of (get_pie_chart scenario_df ''CCAFS'')
       = map_of [(Some ''Success'', 1), (Some ''Failure'', 1)]
   \<and> get_scatter_chart scenario_df ''ALL'' [PyInt 0, PyInt 600] = Inr (take 2 scenario_df)
   \<and> get_scatter_chart scenario_df ''CCAFS'' [PyInt 0, PyInt 10000]
       = Inr [scenario_df ! 0, scenario_df ! 3]"
proof -
  have "get_scatter_chart scenario_df ''ALL'' [PyInt 0, PyInt 600] = Inr (take 2 scenario_df)"
    by code_simp
  moreover have "get_scatter_chart scenario_df ''CCAFS'' [PyInt 0, PyInt 10000]
                   = Inr [scenario_df ! 0, scenario_df ! 3]"
    by code_simp
  ultimately show ?thesis
    by (simp only: scenario_pie_ALL scenario_pie_CCAFS simp_thms)
qed

text \<open>
  C2, as the code has it. The only handler is the one for a missing file: then the
  loader prints its message and binds the built-in table. A read that succeeded is
  passed on. Any other failure of the read leaves the loader as an exception, so the
  loader yields a table exactly when the read did not fail in such a way.
\<close>

theorem load_falls_back_only_when_file_missing:
  "load_spacex_df (Inl FileNotFoundError) = ([not_found_message], Inr fallback_df)
   \<and> load_spacex_df (Inr df) = ([], Inr df)
   \<and> ((\<exists>df'. snd (load_spacex_df read) = Inr df')
        = (read \<noteq> Inl EmptyDataError \<and> read \<noteq> Inl ParserError))"
proof -
  have "(\<exists>df'. snd (load_spacex_df read) = Inr df')
          = (read \<noteq> Inl EmptyDataError \<and> read \<noteq> Inl ParserError)"
    by (cases read rule: load_spacex_df.cases) auto
  then show ?thesis
    by simp
qed

text \<open>
  C2, as stated, fails on a malformed file: the parser's exception is not caught, no
  message is printed and no table is bound.
\<close>

theorem load_malformed_file_propagates:
  "load_spacex_df (Inl ParserError) = ([], Inl ParserError)
   \<and> snd (load_spacex_df (Inl ParserError)) \<noteq> Inr fallback_df"
  by simp

text \<open>
  C3. For every table, the counts of the pie query for all sites add up to the number
  of records of the table whose outcome is a success (class 1).
\<close>

theorem pie_ALL_counts_sum_to_successes:
  "sum_list (map snd (get_pie_chart df ''ALL''))
     = length (filter (\<lambda>r. launch_class r = 1) df)"
proof -
  have "map snd (get_pie_chart df ''ALL'')
          = map snd (groupby_size launch_site (filter (\<lambda>r. launch_class r = 1) df))"
    by (simp add: get_pie_chart_ALL comp_def case_prod_unfold)
  then show ?thesis
    by (simp only: groupby_size_sum)
qed

text \<open>
  C4. For every table that satisfies the invariant and every selected site (a value
  of the dropdown other than the entry \<^verbatim>\<open>'ALL'\<close>, which selects the other branch), the
  count under Success plus the count under Failure, a missing name counting as zero,
  is the number of records of that site.
\<close>

theorem pie_site_counts_partition:
  assumes "entered_site \<noteq> ''ALL''" and "valid_dataset df"
  shows "count_of (get_pie_chart df entered_site) ''Success''
           + count_of (get_pie_chart df entered_site) ''Failure''
         = length (filter (\<lambda>r. launch_site r = entered_site) df)"
proof -
  let ?cs = "map launch_class (filter (\<lambda>r. launch_site r = entered_site) df)"
  have "list_all (\<lambda>c. c = 0 \<or> c = 1) ?cs"
    using assms(2) by (auto simp: valid_dataset_def list_all_iff)
  then have "count_list ?cs 1 + count_list ?cs 0 = length ?cs"
    by (rule count_list_binary)
  with assms(1) show ?thesis
    by (simp add: count_of_Success count_of_Failure)
qed

theorem pie_site_counts_partition_witness:
  "''CCAFS'' \<noteq> ''ALL'' \<and> valid_dataset scenario_df
   \<and> count_of (get_pie_chart scenario_df ''CCAFS'') ''Success''
       + count_of (get_pie_chart scenario_df ''CCAFS'') ''Failure''
     = length (filter (\<lambda>r. launch_site r = ''CCAFS'') scenario_df)"
proof -
  have site: "''CCAFS'' \<noteq> ''ALL''"
    by simp
  show ?thesis
    using site scenario_valid pie_site_counts_partition [OF site scenario_valid]
    by (simp only: simp_thms)
qed

text \<open>
  C5, as the code has it. For every table and site filter, and two payload ranges of
  which the second contains the first (lower or equal low bound, higher or equal high
  bound): when the payloads and the four bounds are compared exactly (they are all
  64-bit integers, or every integer among them is at most \<open>2 ^ 53\<close> in magnitude),
  both scatter queries return, and the second returns at least as many records as
  the first.
\<close>

theorem scatter_range_monotone:
  assumes "compared_exactly (low1 # high1 # low2 # high2 # map payload_mass df)"
    and "value_of low2 \<le> value_of low1" and "value_of high1 \<le> value_of high2"
  shows "\<exists>r1 r2. get_scatter_chart df s [low1, high1] = Inr r1
                \<and> get_scatter_chart df s [low2, high2] = Inr r2
                \<and> length r1 \<le> length r2"
proof -
  let ?site = "\<lambda>r. s = ''ALL'' \<or> launch_site r = s"
  let ?in1 = "\<lambda>r. value_of low1 \<le> value_of (payload_mass r)
                    \<and> value_of (payload_mass r) \<le> value_of high1"
  let ?in2 = "\<lambda>r. value_of low2 \<le> value_of (payload_mass r)
                    \<and> value_of (payload_mass r) \<le> value_of high2"
  have first: "get_scatter_chart df s [low1, high1] = Inr (filter ?site (filter ?in1 df))"
    by (rule get_scatter_chart_exact) (rule compared_exactly_subset [OF assms(1)], auto)
  have second: "get_scatter_chart df s [low2, high2] = Inr (filter ?site (filter ?in2 df))"
    by (rule get_scatter_chart_exact) (rule compared_exactly_subset [OF assms(1)], auto)
  have "filter ?site (filter ?in1 df) = filter ?in1 (filter (\<lambda>r. ?site r \<and> ?in2 r) df)"
    using assms(2,3) by (auto intro!: filter_cong)
  then have "length (filter ?site (filter ?in1 df))
               \<le> length (filter (\<lambda>r. ?site r \<and> ?in2 r) df)"
    by (simp only: length_filter_le)
  also have "filter (\<lambda>r. ?site r \<and> ?in2 r) df = filter ?site (filter ?in2 df)"
    by (auto intro!: filter_cong)
  finally show ?thesis
    using first second by blast
qed

theorem scatter_range_monotone_witness:
  "compared_exactly (PyInt 500 # PyInt 600 # PyInt 0 # PyInt 10000
                       # map payload_mass scenario_df)
   \<and> value_of (PyInt 0) \<le> value_of (PyInt 500)
   \<and> value_of (PyInt 600) \<le> value_of (PyInt 10000)
   \<and> (\<exists>r1 r2. get_scatter_chart scenario_df ''ALL'' [PyInt 500, PyInt 600] = Inr r1
              \<and> get_scatter_chart scenario_df ''ALL'' [PyInt 0, PyInt 10000] = Inr r2
              \<and> length r1 \<le> length r2)"
proof -
  have exact: "compared_exactly (PyInt 500 # PyInt 600 # PyInt 0 # PyInt 10000
                                   # map payload_mass scenario_df)"
    by (rule compared_exactly_subset [OF scenario_small]) auto
  have lo: "value_of (PyInt 0) \<le> value_of (PyInt 500)"
    and hi: "value_of (PyInt 600) \<le> value_of (PyInt 10000)"
    by simp_all
  show ?thesis
    using exact lo hi scatter_range_monotone [OF exact lo hi, of "''ALL''"]
    by (simp only: simp_thms)
qed

text \<open>
  C5, as stated, fails when an integer payload above \<open>2 ^ 53\<close> meets a float bound.
  The range from \<open>2 ^ 53\<close> to \<open>2 ^ 53\<close> given as floats contains, and is
  contained in, the same range given as integers. On the table with the integer
  payloads \<open>2 ^ 53\<close> and \<open>2 ^ 53 + 1\<close> the float range returns both records, since
  \<open>2 ^ 53 + 1\<close> becomes the float \<open>2 ^ 53\<close>; the integer range returns one.
\<close>

theorem scatter_range_not_monotone_across_kinds:
  "valid_dataset heavy_df
   \<and> value_of (PyInt 9007199254740992) \<le> value_of (PyFloat 9007199254740992)
   \<and> value_of (PyFloat 9007199254740992) \<le> value_of (PyInt 9007199254740992)
   \<and> get_scatter_chart heavy_df ''ALL'' [PyFloat 9007199254740992, PyFloat 9007199254740992]
       = Inr heavy_df
   \<and> get_scatter_chart heavy_df ''ALL'' [PyInt 9007199254740992, PyInt 9007199254740992]
       = Inr (take 1 heavy_df)
   \<and> length (take 1 heavy_df) < length heavy_df"
proof -
  have "valid_dataset heavy_df"
    by code_simp
  moreover have "get_scatter_chart heavy_df ''ALL''
                   [PyFloat 9007199254740992, PyFloat 9007199254740992] = Inr heavy_df"
    by code_simp
  moreover have "get_scatter_chart heavy_df ''ALL''
                   [PyInt 9007199254740992, PyInt 9007199254740992] = Inr (take 1 heavy_df)"
    by code_simp
  moreover have "length (take 1 heavy_df) < length heavy_df"
    by (simp add: heavy_df_def)
  ultimately show ?thesis
    by simp
qed

text \<open>
  C6. For every table, the pie query for all sites has a row for a site exactly when
  some record of that site is a success; no row carries the count 0, so a site without
  a success is missing from the result.
\<close>

theorem pie_ALL_keys_are_sites_with_success:
  "(Some site \<in> fst ` set (get_pie_chart df ''ALL''))
     = (filter (\<lambda>r. launch_site r = site \<and> launch_class r = 1) df \<noteq> [])
   \<and> (Some site, 0) \<notin> set (get_pie_chart df ''ALL'')"
proof -
  have keys: "(Some site \<in> fst ` set (get_pie_chart df ''ALL''))
                = (filter (\<lambda>r. launch_site r = site \<and> launch_class r = 1) df \<noteq> [])"
    by (auto simp: get_pie_chart_ALL set_groupby_size image_iff filter_empty_conv)
  have "0 < n" if "(Some site, n) \<in> set (get_pie_chart df ''ALL'')" for n
    using that by (auto simp: get_pie_chart_ALL set_groupby_size intro!: count_list_pos)
  then have "(Some site, 0) \<notin> set (get_pie_chart df ''ALL'')"
    by blast
  with keys show ?thesis
    by (simp only: simp_thms)
qed

text \<open>
  C7, as the code has it. For every table, site filter and payload range, what the
  scatter query returns is a subsequence of the table: records in the order of the
  table, none moved. It returns whenever no integer among payloads and bounds is too
  large for a float64. When payloads and bounds are compared exactly (all 64-bit
  integers, or every integer at most \<open>2 ^ 53\<close> in magnitude) it returns the matching
  records: payload within the bounds, both included, and the site when one is selected.
\<close>

theorem scatter_keeps_table_order:
  "(get_scatter_chart df s [low, high] = Inr fig \<longrightarrow> subseq fig df)
   \<and> (list_all converts_to_float64 (low # high # map payload_mass df)
        \<longrightarrow> (\<exists>fig'. get_scatter_chart df s [low, high] = Inr fig'))
   \<and> (compared_exactly (low # high # map payload_mass df)
        \<longrightarrow> get_scatter_chart df s [low, high]
              = Inr (filter (\<lambda>r. value_of low \<le> value_of (payload_mass r)
                                 \<and> value_of (payload_mass r) \<le> value_of high
                                 \<and> (s = ''ALL'' \<or> launch_site r = s)) df))"
proof -
  have "get_scatter_chart df s [low, high]
          = Inr (filter (\<lambda>r. value_of low \<le> value_of (payload_mass r)
                             \<and> value_of (payload_mass r) \<le> value_of high
                             \<and> (s = ''ALL'' \<or> launch_site r = s)) df)"
    if "compared_exactly (low # high # map payload_mass df)"
    using that by (auto simp: get_scatter_chart_exact intro!: filter_cong)
  then show ?thesis
    using get_scatter_chart_subseq [of df s "[low, high]" fig]
      get_scatter_chart_returns [of low high df s]
    by blast
qed

theorem scatter_keeps_table_order_witness:
  "get_scatter_chart scenario_df ''CCAFS'' [PyInt 0, PyInt 10000]
     = Inr [scenario_df ! 0, scenario_df ! 3]
   \<and> list_all converts_to_float64 (PyInt 0 # PyInt 10000 # map payload_mass scenario_df)
   \<and> compared_exactly (PyInt 0 # PyInt 10000 # map payload_mass scenario_df)
   \<and> subseq [scenario_df ! 0, scenario_df ! 3] scenario_df
   \<and> [scenario_df ! 0, scenario_df ! 3]
       = filter (\<lambda>r. value_of (PyInt 0) \<le> value_of (payload_mass r)
                     \<and> value_of (payload_mass r) \<le> value_of (PyInt 10000)
                     \<and> (''CCAFS'' = ''ALL'' \<or> launch_site r = ''CCAFS'')) scenario_df"
proof -
  have result: "get_scatter_chart scenario_df ''CCAFS'' [PyInt 0, PyInt 10000]
                  = Inr [scenario_df ! 0, scenario_df ! 3]"
    by code_simp
  have converts:
    "list_all converts_to_float64 (PyInt 0 # PyInt 10000 # map payload_mass scenario_df)"
    by code_simp
  have exact: "compared_exactly (PyInt 0 # PyInt 10000 # map payload_mass scenario_df)"
    by (rule compared_exactly_subset [OF scenario_small]) auto
  show ?thesis
    using result converts exact
      scatter_keeps_table_order [of scenario_df "''CCAFS''" "PyInt 0" "PyInt 10000"
        "[scenario_df ! 0, scenario_df ! 3]"]
    by (simp only: simp_thms sum.inject)
qed

text \<open>
  C7, as stated, fails when an integer payload above \<open>2 ^ 53\<close> meets a float bound:
  with both bounds the float \<open>2 ^ 53\<close>, the query returns the record whose payload
  is \<open>2 ^ 53 + 1\<close>, which is above the high bound and so no matching record.
\<close>

theorem scatter_returns_record_outside_range:
  "valid_dataset heavier_df
   \<and> map payload_mass heavier_df = [PyInt 9007199254740993]
   \<and> \<not> value_of (PyInt 9007199254740993) \<le> value_of (PyFloat 9007199254740992)
   \<and> get_scatter_chart heavier_df ''ALL''
         [PyFloat 9007199254740992, PyFloat 9007199254740992] = Inr heavier_df"
proof -
  have "valid_dataset heavier_df"
    by code_simp
  moreover have "get_scatter_chart heavier_df ''ALL''
                   [PyFloat 9007199254740992, PyFloat 9007199254740992] = Inr heavier_df"
    by code_simp
  ultimately show ?thesis
    by (simp add: heavier_df_def mk_record_def)
qed




text \<open>
  C9. When the file does not exist, the loader binds the built-in table; that table is
  not empty, has at least one distinct launch site, and holds a success record (class 1)
  and a failure record (class 0).
\<close>

theorem missing_file_gives_usable_table:
  "snd (load_spacex_df (Inl FileNotFoundError)) = Inr fallback_df
   \<and> fallback_df \<noteq> []
   \<and> 1 \<le> length (launch_sites fallback_df)
   \<and> 1 \<in> set (map launch_class fallback_df)
   \<and> 0 \<in> set (map launch_class fallback_df)"
proof -
  have "1 \<le> length (launch_sites fallback_df)"
    by code_simp
  then show ?thesis
    by (simp add: fallback_df_def mk_record_def)
qed

text \<open>
  C10. For every table and every value of the site filter, in the branch for all
  sites as in the branch for one site, each count in a row of the pie query is
  strictly positive: no row carries the count 0.
\<close>

theorem pie_counts_positive:
  assumes "(name, n) \<in> set (get_pie_chart df entered_site)"
  shows "0 < n"
proof (cases "entered_site = ''ALL''")
  case True
  with assms show ?thesis
    by (auto simp: get_pie_chart_ALL set_groupby_size intro!: count_list_pos)
next
  case False
  with assms show ?thesis
    by (auto simp: get_pie_chart_site set_value_counts intro!: count_list_pos)
qed

theorem pie_counts_positive_witness:
  "(Some ''KSC'', 1) \<in> set (get_pie_chart scenario_df ''ALL'')
   \<and> (Some ''Failure'', 1) \<in> set (get_pie_chart scenario_df ''CCAFS'')
   \<and> (0::nat) < 1"
proof -
  have all_row: "(Some ''KSC'', 1) \<in> set (get_pie_chart scenario_df ''ALL'')"
    by (simp add: scenario_pie_ALL)
  have site_row: "(Some ''Failure'', 1) \<in> set (get_pie_chart scenario_df ''CCAFS'')"
    by (simp add: scenario_pie_CCAFS)
  show ?thesis
    using all_row site_row pie_counts_positive [OF all_row] pie_counts_positive [OF site_row]
    by (simp only: simp_thms)
qed

end
